theory Spec2Isabelle
  imports Main "HOL-Library.Char_ord" "HOL-Library.List_Lexorder"
    "HOL-Library.Product_Lexorder" "HOL-Library.Sublist"
begin

section \<open>Repository content selection and extraction (app/services/ai_service.py)\<close>

text \<open>
  A shallow embedding of \<^verbatim>\<open>get_repository_structure\<close>,
  \<^verbatim>\<open>_extract_code_structure\<close> and \<^verbatim>\<open>extract_repository_content\<close>.
  Python strings are modelled as \<^typ>\<open>string\<close> (one \<^typ>\<open>char\<close> per character, so
  only code points below 256 are covered); Python integers that may be negative
  (\<^verbatim>\<open>max_files\<close>, \<^verbatim>\<open>max_file_size\<close>, \<^verbatim>\<open>max_depth\<close>) are \<^typ>\<open>int\<close>, sizes
  and lengths are \<^typ>\<open>nat\<close>. An exception that leaves a function is \<open>Inl\<close> of its message.
\<close>

subsection \<open>Strings\<close>

abbreviation nl :: char where
  "nl \<equiv> CHR 0x0A"

text \<open>\<^verbatim>\<open>str(n)\<close> for a non-negative integer.\<close>

fun digit_char :: "nat \<Rightarrow> char" where
  "digit_char n = (''0123456789'' ! (n mod 10))"

fun str_nat :: "nat \<Rightarrow> string" where
  "str_nat n = (if n < 10 then [digit_char n] else str_nat (n div 10) @ [digit_char n])"

text \<open>\<^verbatim>\<open>str.lower()\<close>, on the ASCII letters.\<close>

definition lower_char :: "char \<Rightarrow> char" where
  "lower_char c =
     (case map_of (zip ''ABCDEFGHIJKLMNOPQRSTUVWXYZ'' ''abcdefghijklmnopqrstuvwxyz'') c of
        Some d \<Rightarrow> d
      | None \<Rightarrow> c)"

definition lower :: "string \<Rightarrow> string" where
  "lower s = map lower_char s"

text \<open>\<^verbatim>\<open>str.strip()\<close>: the characters below 256 for which \<^verbatim>\<open>str.isspace()\<close> holds.\<close>

definition is_space :: "char \<Rightarrow> bool" where
  "is_space c = (c \<in> set [CHR 0x09, CHR 0x0A, CHR 0x0B, CHR 0x0C, CHR 0x0D,
                            CHR 0x1C, CHR 0x1D, CHR 0x1E, CHR 0x1F, CHR 0x20,
                            CHR 0x85, CHR 0xA0])"

definition strip :: "string \<Rightarrow> string" where
  "strip s = rev (dropWhile is_space (rev (dropWhile is_space s)))"

text \<open>\<^verbatim>\<open>s.startswith(p)\<close> and \<^verbatim>\<open>p in s\<close>.\<close>

fun startswith :: "string \<Rightarrow> string \<Rightarrow> bool" where
  "startswith s [] = True"
| "startswith [] (p # ps) = False"
| "startswith (c # cs) (p # ps) = (c = p \<and> startswith cs ps)"

fun contains :: "string \<Rightarrow> string \<Rightarrow> bool" where
  "contains p [] = (p = [])"
| "contains p (c # cs) = (startswith (c # cs) p \<or> contains p cs)"

text \<open>\<^verbatim>\<open>s.split(c)\<close> for a one-character separator, and \<^verbatim>\<open>sep.join(ls)\<close>.\<close>

fun split_chr :: "char \<Rightarrow> string \<Rightarrow> string list" where
  "split_chr d [] = [[]]"
| "split_chr d (c # cs) =
     (if c = d then [] # split_chr d cs
      else (case split_chr d cs of [] \<Rightarrow> [[c]] | l # ls \<Rightarrow> (c # l) # ls))"

fun join :: "string \<Rightarrow> string list \<Rightarrow> string" where
  "join sep [] = []"
| "join sep [l] = l"
| "join sep (l # ls) = l @ sep @ join sep ls"

subsection \<open>Paths (pathlib.PurePosixPath)\<close>

text \<open>
  A path is the list of its \<^verbatim>\<open>parts\<close>. \<open>path_parts\<close> is \<^verbatim>\<open>Path(s).parts\<close>: a leading
  slash gives the root part, empty and \<^verbatim>\<open>.\<close> components are dropped.
\<close>

definition path_root :: "string \<Rightarrow> string list" where
  "path_root s =
     (if startswith s ''//'' \<and> \<not> startswith s ''///'' then [''//'']
      else if startswith s ''/'' then [''/'']
      else [])"

definition path_parts :: "string \<Rightarrow> string list" where
  "path_parts s = path_root s @ filter (\<lambda>p. p \<noteq> [] \<and> p \<noteq> ''.'') (split_chr CHR ''/'' s)"

definition is_root_part :: "string \<Rightarrow> bool" where
  "is_root_part p = (p = ''/'' \<or> p = ''//'')"

text \<open>\<^verbatim>\<open>str(path)\<close>.\<close>

fun path_str :: "string list \<Rightarrow> string" where
  "path_str [] = ''.''"
| "path_str (p # ps) = (if is_root_part p then p @ join ''/'' ps else join ''/'' (p # ps))"

text \<open>\<^verbatim>\<open>path.name\<close>: the last part, unless it is the root.\<close>

definition path_name :: "string list \<Rightarrow> string" where
  "path_name ps = (if ps = [] \<or> is_root_part (last ps) then [] else last ps)"

text \<open>
  \<^verbatim>\<open>path.suffix\<close>: with \<^verbatim>\<open>i = name.rfind('.')\<close>, the text from \<^verbatim>\<open>i\<close> on when
  \<^verbatim>\<open>0 < i < len(name) - 1\<close>, and the empty string otherwise.
\<close>

definition rfind_dot :: "string \<Rightarrow> nat option" where
  "rfind_dot name =
     (let r = takeWhile (\<lambda>c. c \<noteq> CHR ''.'') (rev name)
      in if length r = length name then None else Some (length name - length r - 1))"

definition suffix_of_name :: "string \<Rightarrow> string" where
  "suffix_of_name name =
     (case rfind_dot name of
        None \<Rightarrow> []
      | Some i \<Rightarrow> if 0 < i \<and> i + 1 < length name then drop i name else [])"

definition path_suffix :: "string list \<Rightarrow> string" where
  "path_suffix ps = suffix_of_name (path_name ps)"

subsection \<open>The filesystem\<close>

text \<open>
  A node of the tree under a repository root. A regular file carries what
  \<^verbatim>\<open>stat().st_size\<close> gives (\<open>None\<close> when \<^verbatim>\<open>stat\<close> raises) and what \<^verbatim>\<open>open\<close> and
  \<^verbatim>\<open>read\<close> give (\<open>Inl\<close> the message of the exception, \<open>Inr\<close> the decoded text). The
  children of a directory are listed in the order the operating system enumerates them.
  \<open>Other\<close> is an entry that is neither a regular file nor a directory (a broken link, a
  socket); \<open>Denied\<close> is an entry whose \<^verbatim>\<open>stat\<close> fails with an error that
  \<^verbatim>\<open>is_file()\<close> and \<^verbatim>\<open>exists()\<close> do not swallow, with the message of the exception.
\<close>

datatype fsnode =
    File string "nat option" "string + string"
  | Dir string "fsnode list"
  | Other string
  | Denied string string

fun node_name :: "fsnode \<Rightarrow> string" where
  "node_name (File n s r) = n"
| "node_name (Dir n cs) = n"
| "node_name (Other n) = n"
| "node_name (Denied n e) = n"

text \<open>The filesystem maps the string given as \<^verbatim>\<open>target_dir\<close> to the node it names.\<close>

type_synonym filesystem = "string \<rightharpoonup> fsnode"

text \<open>An entry yielded by \<^verbatim>\<open>repo_path.rglob("*")\<close>: its parts relative to the root, and
  the node.\<close>

type_synonym item = "string list \<times> fsnode"

text \<open>
  \<^verbatim>\<open>rglob("*")\<close>: every directory, in pre-order from the root, yields its children.
\<close>

fun rglob :: "string list \<Rightarrow> fsnode \<Rightarrow> item list" where
  "rglob rel (Dir n cs) =
     map (\<lambda>c. (rel @ [node_name c], c)) cs @
     concat (map (\<lambda>c. rglob (rel @ [node_name c]) c) cs)"
| "rglob rel (File n s r) = []"
| "rglob rel (Other n) = []"
| "rglob rel (Denied n e) = []"

fun is_file :: "fsnode \<Rightarrow> string + bool" where
  "is_file (File n s r) = Inr True"
| "is_file (Dir n cs) = Inr False"
| "is_file (Other n) = Inr False"
| "is_file (Denied n e) = Inl e"

fun is_dir :: "fsnode \<Rightarrow> bool" where
  "is_dir (Dir n cs) = True"
| "is_dir nd = False"

fun st_size :: "fsnode \<Rightarrow> nat option" where
  "st_size (File n s r) = s"
| "st_size nd = None"

text \<open>
  \<^verbatim>\<open>open(file_path, 'r', ...)\<close> followed by \<^verbatim>\<open>f.read(n)\<close>: at most \<open>n\<close> characters, all
  of them when \<open>n\<close> is negative. Only regular files are ever opened.
\<close>

fun read_file :: "fsnode \<Rightarrow> int \<Rightarrow> string + string" where
  "read_file (File n s r) k =
     (case r of Inl e \<Rightarrow> Inl e | Inr c \<Rightarrow> Inr (if k < 0 then c else take (nat k) c))"
| "read_file nd k = Inl ''not a regular file''"

subsection \<open>Constants\<close>

definition CODE_STRUCTURE_EXTRACTION_THRESHOLD :: nat where
  "CODE_STRUCTURE_EXTRACTION_THRESHOLD = 3000"

definition MIN_EXTRACTED_CONTENT :: nat where
  "MIN_EXTRACTED_CONTENT = 100"

definition TRUNCATE_LINES_HEAD :: nat where
  "TRUNCATE_LINES_HEAD = 25"

definition TRUNCATE_LINES_TAIL :: nat where
  "TRUNCATE_LINES_TAIL = 25"

definition SKIP_DIRECTORIES :: "string list" where
  "SKIP_DIRECTORIES = [''.git'', ''node_modules'', ''__pycache__'', ''venv'', ''.venv'',
                       ''dist'', ''build'', ''target'', ''bin'', ''obj'']"

definition code_extensions :: "string list" where
  "code_extensions = [''.py'', ''.js'', ''.jsx'', ''.ts'', ''.tsx'', ''.java'', ''.cpp'', ''.c'',
                      ''.h'', ''.cs'', ''.go'', ''.rs'', ''.rb'', ''.php'', ''.swift'', ''.kt'',
                      ''.scala'', ''.md'', ''.txt'', ''.json'', ''.yml'', ''.yaml'', ''.toml'',
                      ''.xml'']"

definition skip_files :: "string list" where
  "skip_files = [''package-lock.json'', ''yarn.lock'', ''poetry.lock'', ''Pipfile.lock'',
                 ''.gitignore'', ''.dockerignore'', ''LICENSE'', ''CHANGELOG.md'']"

definition max_total_size :: nat where
  "max_total_size = 500000"

subsection \<open>get_repository_structure\<close>

record repo_structure =
  root :: string
  files :: "string list"
  directories :: "string list"

text \<open>The Surveyor's test \<^verbatim>\<open>".git" in item.parts\<close>, on the parts of the whole path.\<close>

definition surveyor_skips :: "string list \<Rightarrow> bool" where
  "surveyor_skips parts = (''.git'' \<in> set parts)"

text \<open>
  The loop over \<^verbatim>\<open>rglob("*")\<close>. It returns the two lists as they stand when the loop
  ends, and the message of the exception that ended it, if one did.
\<close>

fun survey_loop ::
  "string list \<Rightarrow> int \<Rightarrow> item list \<Rightarrow> string list \<Rightarrow> string list
     \<Rightarrow> (string list \<times> string list) \<times> string option" where
  "survey_loop rp max_depth [] fs ds = ((fs, ds), None)"
| "survey_loop rp max_depth ((rel, nd) # its) fs ds =
     (if surveyor_skips (rp @ rel) then survey_loop rp max_depth its fs ds
      else if int (length rel) > max_depth then survey_loop rp max_depth its fs ds
      else (case is_file nd of
              Inl e \<Rightarrow> ((fs, ds), Some e)
            | Inr True \<Rightarrow> survey_loop rp max_depth its (fs @ [path_str rel]) ds
            | Inr False \<Rightarrow>
                if is_dir nd then survey_loop rp max_depth its fs (ds @ [path_str rel])
                else survey_loop rp max_depth its fs ds))"

text \<open>
  The body of the \<^verbatim>\<open>try\<close>: \<open>None\<close> for the early return when the root does not exist,
  otherwise the lists collected (unsorted) and the exception, if any.
\<close>

definition survey ::
  "filesystem \<Rightarrow> string \<Rightarrow> int \<Rightarrow> ((string list \<times> string list) \<times> string option) option" where
  "survey fs target_dir max_depth =
     (case fs target_dir of
        None \<Rightarrow> None
      | Some (Denied n e) \<Rightarrow> Some (([], []), Some e)
      | Some nd \<Rightarrow> Some (survey_loop (path_parts target_dir) max_depth (rglob [] nd) [] []))"

definition get_repository_structure :: "filesystem \<Rightarrow> string \<Rightarrow> int \<Rightarrow> repo_structure" where
  "get_repository_structure fs target_dir max_depth =
     (case survey fs target_dir max_depth of
        None \<Rightarrow> \<lparr>root = target_dir, files = [], directories = []\<rparr>
      | Some ((f, d), Some e) \<Rightarrow> \<lparr>root = target_dir, files = f, directories = d\<rparr>
      | Some ((f, d), None) \<Rightarrow> \<lparr>root = target_dir, files = sort f, directories = sort d\<rparr>)"

text \<open>The exception caught by the Surveyor, if any: the traversal completed without
  error when this is \<open>None\<close>.\<close>

definition survey_error :: "filesystem \<Rightarrow> string \<Rightarrow> int \<Rightarrow> string option" where
  "survey_error fs target_dir max_depth =
     (case survey fs target_dir max_depth of None \<Rightarrow> None | Some (acc, err) \<Rightarrow> err)"

subsection \<open>_extract_code_structure\<close>

definition py_prefixes :: "string list" where
  "py_prefixes = [''import '', ''from '', ''class '', ''def '', ''@'']"

definition js_prefixes :: "string list" where
  "js_prefixes = [''import '', ''export '', ''class '', ''function '', ''const '', ''let '',
                  ''var '', ''interface '', ''type '']"

definition java_prefixes :: "string list" where
  "java_prefixes = [''import '', ''package '', ''class '', ''interface '', ''struct '', ''enum '',
                    ''func '', ''pub fn'', ''impl '']"

text \<open>A line is kept when its stripped form starts with one of the prefixes.\<close>

definition keeps :: "string list \<Rightarrow> string \<Rightarrow> bool" where
  "keeps pfxs line = list_ex (startswith (strip line)) pfxs"

definition truncated_marker :: string where
  "truncated_marker = ''\<newline>... (truncated for brevity)''"

definition omitted_marker :: string where
  "omitted_marker = ''\<newline>... (full implementation details omitted for brevity)''"

text \<open>The tail of the function, from \<^verbatim>\<open>if not extracted_lines\<close> on.\<close>

definition finish_extraction :: "string \<Rightarrow> string list \<Rightarrow> string" where
  "finish_extraction content extracted_lines =
     (if extracted_lines = [] then
        take CODE_STRUCTURE_EXTRACTION_THRESHOLD content @ truncated_marker
      else let result = join [nl] extracted_lines in
        if length result < MIN_EXTRACTED_CONTENT then
          take CODE_STRUCTURE_EXTRACTION_THRESHOLD content @ truncated_marker
        else result @ omitted_marker)"

definition extract_code_structure :: "string \<Rightarrow> string \<Rightarrow> string" where
  "extract_code_structure content file_extension =
     (let lines = split_chr nl content in
      if length content < CODE_STRUCTURE_EXTRACTION_THRESHOLD then content
      else if file_extension \<in> set [''.py''] then
        finish_extraction content (filter (keeps py_prefixes) lines)
      else if file_extension \<in> set [''.js'', ''.jsx'', ''.ts'', ''.tsx''] then
        finish_extraction content (filter (keeps js_prefixes) lines)
      else if file_extension \<in> set [''.java'', ''.cs'', ''.go'', ''.rs''] then
        finish_extraction content (filter (keeps java_prefixes) lines)
      else if length lines > TRUNCATE_LINES_HEAD + TRUNCATE_LINES_TAIL then
        finish_extraction content
          (take TRUNCATE_LINES_HEAD lines @
           [''...'', ''# Content truncated for brevity'', ''...''] @
           drop (length lines - TRUNCATE_LINES_TAIL) lines)
      else content)"

subsection \<open>extract_repository_content\<close>

text \<open>A candidate is the pair \<^verbatim>\<open>(item, file_size)\<close> appended to \<^verbatim>\<open>code_files\<close>.\<close>

type_synonym candidate = "item \<times> nat"

text \<open>The two exclusion tests of the Selector's loop, on the parts of the whole path.\<close>

definition skips_directory :: "string list \<Rightarrow> bool" where
  "skips_directory parts = list_ex (\<lambda>skip. skip \<in> set parts) SKIP_DIRECTORIES"

definition skips_file_name :: "string list \<Rightarrow> bool" where
  "skips_file_name parts = (path_name parts \<in> set skip_files)"

definition selector_skips :: "string list \<Rightarrow> bool" where
  "selector_skips parts = (skips_directory parts \<or> skips_file_name parts)"

text \<open>
  The loop that collects \<^verbatim>\<open>code_files\<close>. An exception of \<^verbatim>\<open>is_file()\<close> leaves the
  loop (\<open>Inl\<close>); an exception of \<^verbatim>\<open>stat()\<close> is swallowed and the file is passed over.
\<close>

fun collect_code_files ::
  "string list \<Rightarrow> int \<Rightarrow> item list \<Rightarrow> candidate list \<Rightarrow> string + candidate list" where
  "collect_code_files rp max_file_size [] code_files = Inr code_files"
| "collect_code_files rp max_file_size ((rel, nd) # its) code_files =
     (if skips_directory (rp @ rel) then collect_code_files rp max_file_size its code_files
      else if skips_file_name (rp @ rel) then collect_code_files rp max_file_size its code_files
      else (case is_file nd of
              Inl e \<Rightarrow> Inl e
            | Inr b \<Rightarrow>
                if b \<and> path_suffix (rp @ rel) \<in> set code_extensions then
                  (case st_size nd of
                     None \<Rightarrow> collect_code_files rp max_file_size its code_files
                   | Some file_size \<Rightarrow>
                       if int file_size \<le> max_file_size then
                         collect_code_files rp max_file_size its
                           (code_files @ [((rel, nd), file_size)])
                       else collect_code_files rp max_file_size its code_files)
                else collect_code_files rp max_file_size its code_files))"

text \<open>
  \<^verbatim>\<open>file_priority\<close>, on the parts of the whole path of the file and its size. The key
  is the triple (tier, size or zero, lowercase name), compared lexicographically.
\<close>

type_synonym priority_key = "nat \<times> nat \<times> string"

definition file_priority :: "string list \<times> nat \<Rightarrow> priority_key" where
  "file_priority file_tuple =
     (let file_path = fst file_tuple;
          file_size = snd file_tuple;
          name = lower (path_name file_path);
          path_s = lower (path_str file_path)
      in if contains ''readme'' name then (0, 0, name)
         else if name \<in> set [''setup.py'', ''pyproject.toml'', ''package.json'', ''cargo.toml'',
                               ''pom.xml'', ''build.gradle''] then (1, 0, name)
         else if name \<in> set [''main.py'', ''index.js'', ''index.ts'', ''app.py'', ''__init__.py'',
                               ''main.go'', ''main.rs''] then (2, 0, name)
         else if contains ''src'' path_s \<or> contains ''app'' path_s then (3, file_size, name)
         else if path_suffix file_path \<in> set [''.md'', ''.txt''] then (4, file_size, name)
         else if path_suffix file_path \<in> set [''.json'', ''.yml'', ''.yaml'', ''.toml'', ''.xml'']
           then (5, file_size, name)
         else if contains ''test'' path_s \<or> contains ''spec'' path_s then (6, file_size, name)
         else (7, file_size, name))"

text \<open>The key of a candidate: its path is the root's parts followed by its own.\<close>

definition candidate_key :: "string list \<Rightarrow> candidate \<Rightarrow> priority_key" where
  "candidate_key rp c = file_priority (rp @ fst (fst c), snd c)"

text \<open>
  The selection loop: \<^verbatim>\<open>break\<close> once \<^verbatim>\<open>max_files\<close> are selected, \<^verbatim>\<open>continue\<close> past a
  file that would take the total over \<^verbatim>\<open>max_total_size\<close>. It returns
  \<^verbatim>\<open>selected_files\<close> and \<^verbatim>\<open>total_size\<close>.
\<close>

fun select_files ::
  "int \<Rightarrow> candidate list \<Rightarrow> candidate list \<Rightarrow> nat \<Rightarrow> candidate list \<times> nat" where
  "select_files max_files [] selected_files total_size = (selected_files, total_size)"
| "select_files max_files (c # cs) selected_files total_size =
     (if int (length selected_files) \<ge> max_files then (selected_files, total_size)
      else if total_size + snd c > max_total_size then
        select_files max_files cs selected_files total_size
      else select_files max_files cs (selected_files @ [c]) (total_size + snd c))"

text \<open>The parts appended for one selected file.\<close>

definition file_section :: "string list \<Rightarrow> int \<Rightarrow> candidate \<Rightarrow> string list" where
  "file_section rp max_file_size c =
     (let rel = fst (fst c);
          nd = snd (fst c);
          sfx = path_suffix (rp @ rel)
      in (''\<newline>### File: '' @ path_str rel @ [nl]) #
         (case read_file nd max_file_size of
            Inl e \<Rightarrow> [''Error reading file: '' @ e @ [nl]]
          | Inr file_content \<Rightarrow>
              if sfx \<in> set [''.md'', ''.txt'', ''.json'', ''.yml'', ''.yaml'', ''.toml'', ''.xml'']
                 \<or> contains ''readme'' (lower (path_name (rp @ rel)))
              then [''```'' @ tl sfx @ [nl], file_content] @
                   (if int (length file_content) \<ge> max_file_size
                    then [''\<newline>... (truncated)''] else []) @
                   [''\<newline>```\<newline>'']
              else [''```'' @ tl sfx @ [nl],
                    extract_code_structure file_content sfx,
                    ''\<newline>```\<newline>'']))"

text \<open>The parts appended before the \<^verbatim>\<open>try\<close>: the title and the directory summary.\<close>

definition header_parts :: "filesystem \<Rightarrow> string \<Rightarrow> string list" where
  "header_parts fs target_dir =
     (let dirs = directories (get_repository_structure fs target_dir 2)
      in [''# Repository Structure and Content\<newline>'',
          ''\<newline>## Directory Structure\<newline>'',
          ''Root: '' @ target_dir @ [nl]] @
         (if dirs \<noteq> [] then
            (''\<newline>Directories ('' @ str_nat (length dirs) @ ''):\<newline>'') #
            map (\<lambda>dir_name. ''  - '' @ dir_name @ [nl]) (take 20 dirs)
          else []))"

definition code_files_header :: "nat \<Rightarrow> nat \<Rightarrow> string" where
  "code_files_header n total_size =
     ''\<newline>## Code Files ('' @ str_nat n @ '' files included, ~'' @
     str_nat (total_size div 1024) @ ''KB total)\<newline>''"

text \<open>\<^verbatim>\<open>code_files\<close> after the first loop, for an existing root.\<close>

definition code_files :: "string \<Rightarrow> int \<Rightarrow> fsnode \<Rightarrow> string + candidate list" where
  "code_files target_dir max_file_size nd =
     collect_code_files (path_parts target_dir) max_file_size (rglob [] nd) []"

text \<open>\<^verbatim>\<open>selected_files\<close> and \<^verbatim>\<open>total_size\<close> after the sort and the selection loop.\<close>

definition selected ::
  "string \<Rightarrow> int \<Rightarrow> candidate list \<Rightarrow> candidate list \<times> nat" where
  "selected target_dir max_files cf =
     select_files max_files (sort_key (candidate_key (path_parts target_dir)) cf) [] 0"

text \<open>The parts appended inside the \<^verbatim>\<open>try\<close>.\<close>

definition body_parts :: "string \<Rightarrow> int \<Rightarrow> int \<Rightarrow> fsnode \<Rightarrow> string list" where
  "body_parts target_dir max_files max_file_size nd =
     (case code_files target_dir max_file_size nd of
        Inl e \<Rightarrow> [''\<newline>Error extracting content: '' @ e @ [nl]]
      | Inr cf \<Rightarrow>
          (let sel = selected target_dir max_files cf
           in code_files_header (length (fst sel)) (snd sel) #
              concat (map (file_section (path_parts target_dir) max_file_size) (fst sel))))"

text \<open>
  The function. \<^verbatim>\<open>repo_path.exists()\<close> stands outside the \<^verbatim>\<open>try\<close>, so its exception
  leaves the function.
\<close>

definition extract_repository_content ::
  "filesystem \<Rightarrow> string \<Rightarrow> int \<Rightarrow> int \<Rightarrow> string + string" where
  "extract_repository_content fs target_dir max_files max_file_size =
     (case fs target_dir of
        None \<Rightarrow> Inr ''Repository directory not found.''
      | Some (Denied n e) \<Rightarrow> Inl e
      | Some nd \<Rightarrow>
          Inr (concat (header_parts fs target_dir @
                       body_parts target_dir max_files max_file_size nd)))"

subsection \<open>Effects: the log\<close>





section \<open>Properties\<close>

text \<open>The table of \<open>lower_char\<close>, spelled out.\<close>

lemma lower_char_if:
  "lower_char c =
    (if c = CHR ''A'' then CHR ''a'' else if c = CHR ''B'' then CHR ''b''
     else if c = CHR ''C'' then CHR ''c'' else if c = CHR ''D'' then CHR ''d''
     else if c = CHR ''E'' then CHR ''e'' else if c = CHR ''F'' then CHR ''f''
     else if c = CHR ''G'' then CHR ''g'' else if c = CHR ''H'' then CHR ''h''
     else if c = CHR ''I'' then CHR ''i'' else if c = CHR ''J'' then CHR ''j''
     else if c = CHR ''K'' then CHR ''k'' else if c = CHR ''L'' then CHR ''l''
     else if c = CHR ''M'' then CHR ''m'' else if c = CHR ''N'' then CHR ''n''
     else if c = CHR ''O'' then CHR ''o'' else if c = CHR ''P'' then CHR ''p''
     else if c = CHR ''Q'' then CHR ''q'' else if c = CHR ''R'' then CHR ''r''
     else if c = CHR ''S'' then CHR ''s'' else if c = CHR ''T'' then CHR ''t''
     else if c = CHR ''U'' then CHR ''u'' else if c = CHR ''V'' then CHR ''v''
     else if c = CHR ''W'' then CHR ''w'' else if c = CHR ''X'' then CHR ''x''
     else if c = CHR ''Y'' then CHR ''y'' else if c = CHR ''Z'' then CHR ''z''
     else c)"
  by (simp add: lower_char_def)

text \<open>The definitions unfolded when the model is run on a concrete tree.\<close>

lemmas model_defs = lower_def lower_char_if is_space_def strip_def path_root_def path_parts_def
  is_root_part_def path_name_def rfind_dot_def suffix_of_name_def path_suffix_def
  SKIP_DIRECTORIES_def code_extensions_def skip_files_def max_total_size_def
  surveyor_skips_def survey_def get_repository_structure_def survey_error_def
  skips_directory_def skips_file_name_def selector_skips_def file_priority_def candidate_key_def
  file_section_def header_parts_def code_files_header_def code_files_def selected_def body_parts_def
  extract_repository_content_def extract_code_structure_def CODE_STRUCTURE_EXTRACTION_THRESHOLD_def
  Let_def

subsection \<open>The selection loop\<close>





lemma select_files_subseq:
  "\<exists>ys. fst (select_files mf cs sel t) = sel @ ys \<and> subseq ys cs"
proof (induction cs arbitrary: sel t)
  case Nil
  then show ?case by simp
next
  case (Cons c cs)
  from Cons.IH [of sel t] obtain ys where
    a: "fst (select_files mf cs sel t) = sel @ ys" "subseq ys cs" by blast
  from Cons.IH [of "sel @ [c]" "t + snd c"] obtain zs where
    b: "fst (select_files mf cs (sel @ [c]) (t + snd c)) = (sel @ [c]) @ zs" "subseq zs cs"
    by blast
  show ?case
  proof (cases "int (length sel) \<ge> mf")
    case True
    then show ?thesis by simp
  next
    case nb: False
    show ?thesis
    proof (cases "t + snd c > max_total_size")
      case True
      with nb a show ?thesis by (auto intro: subseq_Cons')
    next
      case False
      with nb b show ?thesis by auto
    qed
  qed
qed



subsection \<open>The structural extractor\<close>

text \<open>
  C8. Content shorter than 3000 characters is returned unchanged, whatever the
  extension.
\<close>

theorem small_content_identity:
  "length content < 3000 \<Longrightarrow> extract_code_structure content file_extension = content"
  by (simp add: extract_code_structure_def CODE_STRUCTURE_EXTRACTION_THRESHOLD_def)

theorem small_content_identity_witness:
  "length ''def f(): pass'' < 3000
   \<and> extract_code_structure ''def f(): pass'' ''.py'' = ''def f(): pass''"
  using small_content_identity [of "''def f(): pass''" "''.py''"] by simp

subsection \<open>The whole function\<close>




subsection \<open>The Surveyor\<close>

text \<open>
  C9. When the traversal ends without an exception, the files list and the directories
  list returned by \<^verbatim>\<open>get_repository_structure\<close> are sorted in the order of Python's
  string comparison (character by character, a proper prefix first). A root that does
  not exist gives two empty lists.
\<close>

theorem surveyor_sorted:
  "survey_error fs target_dir max_depth = None \<Longrightarrow>
     sorted (files (get_repository_structure fs target_dir max_depth))
     \<and> sorted (directories (get_repository_structure fs target_dir max_depth))"
  by (auto simp: survey_error_def get_repository_structure_def split: option.splits prod.splits)

theorem surveyor_sorted_witness:
  "survey_error [''/repo'' \<mapsto> Dir ''repo'' [File ''zebra.txt'' (Some 0) (Inr ''''), Dir ''lib'' [],
       File ''apple.txt'' (Some 0) (Inr ''''), Dir ''doc'' [File ''b.md'' (Some 0) (Inr '''')]]] ''/repo'' 3 = None
   \<and> files (get_repository_structure [''/repo'' \<mapsto> Dir ''repo'' [File ''zebra.txt'' (Some 0) (Inr ''''), Dir ''lib'' [],
       File ''apple.txt'' (Some 0) (Inr ''''), Dir ''doc'' [File ''b.md'' (Some 0) (Inr '''')]]] ''/repo'' 3)
      = [''apple.txt'', ''doc/b.md'', ''zebra.txt'']
   \<and> sorted [''apple.txt'', ''doc/b.md'', ''zebra.txt'']
   \<and> directories (get_repository_structure [''/repo'' \<mapsto> Dir ''repo'' [File ''zebra.txt'' (Some 0) (Inr ''''), Dir ''lib'' [],
       File ''apple.txt'' (Some 0) (Inr ''''), Dir ''doc'' [File ''b.md'' (Some 0) (Inr '''')]]] ''/repo'' 3)
      = [''doc'', ''lib'']
   \<and> sorted [''doc'', ''lib'']"
  using surveyor_sorted [of "[''/repo'' \<mapsto> Dir ''repo'' [File ''zebra.txt'' (Some 0) (Inr ''''), Dir ''lib'' [],
       File ''apple.txt'' (Some 0) (Inr ''''), Dir ''doc'' [File ''b.md'' (Some 0) (Inr '''')]]]" "''/repo''" 3]
  by (simp add: model_defs)

subsection \<open>Candidates\<close>

lemma collect_code_files_step:
  "collect_code_files rp mfs ((rel, nd) # its) acc = collect_code_files rp mfs its acc
   \<or> (\<exists>e. is_file nd = Inl e \<and> collect_code_files rp mfs ((rel, nd) # its) acc = Inl e)
   \<or> (\<exists>s. st_size nd = Some s \<and> int s \<le> mfs \<and> is_file nd = Inr True
          \<and> \<not> skips_directory (rp @ rel) \<and> \<not> skips_file_name (rp @ rel)
          \<and> path_suffix (rp @ rel) \<in> set code_extensions
          \<and> collect_code_files rp mfs ((rel, nd) # its) acc =
                collect_code_files rp mfs its (acc @ [((rel, nd), s)]))"
  by (cases "is_file nd"; cases "st_size nd") auto

lemma collect_code_files_sound:
  "collect_code_files rp mfs its acc = Inr cf \<Longrightarrow> c \<in> set cf \<Longrightarrow>
     c \<in> set acc \<or>
     (fst c \<in> set its \<and> st_size (snd (fst c)) = Some (snd c) \<and> int (snd c) \<le> mfs
      \<and> is_file (snd (fst c)) = Inr True
      \<and> \<not> skips_directory (rp @ fst (fst c)) \<and> \<not> skips_file_name (rp @ fst (fst c))
      \<and> path_suffix (rp @ fst (fst c)) \<in> set code_extensions)"
proof (induction its arbitrary: acc)
  case Nil
  then show ?case by simp
next
  case (Cons it its)
  obtain rel nd where it: "it = (rel, nd)" by (cases it)
  consider
    (pass) "collect_code_files rp mfs (it # its) acc = collect_code_files rp mfs its acc"
  | (raise) e where "collect_code_files rp mfs (it # its) acc = Inl e"
  | (add) s where "st_size nd = Some s" and "int s \<le> mfs" and "is_file nd = Inr True"
      and "\<not> skips_directory (rp @ rel)" and "\<not> skips_file_name (rp @ rel)"
      and "path_suffix (rp @ rel) \<in> set code_extensions"
      and "collect_code_files rp mfs (it # its) acc =
             collect_code_files rp mfs its (acc @ [((rel, nd), s)])"
    using collect_code_files_step [of rp mfs rel nd its acc] unfolding it by blast
  then show ?case
  proof cases
    case pass
    with Cons.prems Cons.IH [of acc] show ?thesis by auto
  next
    case raise
    with Cons.prems show ?thesis by simp
  next
    case add
    with Cons.prems Cons.IH [of "acc @ [((rel, nd), s)]"] show ?thesis
      by (auto simp: it)
  qed
qed

lemma subseq_set: "subseq xs ys \<Longrightarrow> set xs \<subseteq> set ys"
  by (auto dest: list_emb_set)

lemma selected_subset: "set (fst (selected d mf cf)) \<subseteq> set cf"
proof -
  obtain ys where "fst (selected d mf cf) = [] @ ys"
    and "subseq ys (sort_key (candidate_key (path_parts d)) cf)"
    using select_files_subseq [of mf "sort_key (candidate_key (path_parts d)) cf" "[]" 0]
    by (auto simp: selected_def)
  then show ?thesis
    using subseq_set [of ys "sort_key (candidate_key (path_parts d)) cf"] by simp
qed

text \<open>
  C5. Every candidate was yielded by the walk, its size is the one \<^verbatim>\<open>stat\<close> gave and
  it is at most \<^verbatim>\<open>max_file_size\<close>; the selected files are candidates. So an entry
  whose size exceeds \<^verbatim>\<open>max_file_size\<close> is neither a candidate nor selected, and no
  section is written for it (sections are written for the selected files only).
\<close>

theorem per_file_cap:
  "code_files target_dir max_file_size nd = Inr cf \<Longrightarrow>
     (\<forall>c \<in> set cf. int (snd c) \<le> max_file_size \<and> st_size (snd (fst c)) = Some (snd c)
                     \<and> fst c \<in> set (rglob [] nd))
     \<and> set (fst (selected target_dir max_files cf)) \<subseteq> set cf
     \<and> (\<forall>it s. st_size (snd it) = Some s \<and> max_file_size < int s \<longrightarrow>
           it \<notin> fst ` set cf \<and> it \<notin> fst ` set (fst (selected target_dir max_files cf)))"
proof -
  assume cf: "code_files target_dir max_file_size nd = Inr cf"
  have a: "int (snd c) \<le> max_file_size \<and> st_size (snd (fst c)) = Some (snd c)
           \<and> fst c \<in> set (rglob [] nd)" if "c \<in> set cf" for c
    using collect_code_files_sound [OF cf [unfolded code_files_def] that] by simp
  have b: "set (fst (selected target_dir max_files cf)) \<subseteq> set cf"
    by (rule selected_subset)
  have c: "it \<notin> fst ` set cf" if "st_size (snd it) = Some s" and "max_file_size < int s" for it s
    using a that by fastforce
  from a b c show ?thesis by (meson image_mono subsetD)
qed

theorem per_file_cap_witness:
  "code_files ''/repo'' 10000
     (Dir ''repo'' [File ''big.py'' (Some 20000) (Inr ''x''),
                    File ''small.py'' (Some 5) (Inr ''x = 1'')]) =
     Inr [(([''small.py''], File ''small.py'' (Some 5) (Inr ''x = 1'')), 5)]
   \<and> st_size (snd ([''big.py''], File ''big.py'' (Some 20000) (Inr ''x''))) = Some 20000
   \<and> (10000::int) < int 20000
   \<and> ([''big.py''], File ''big.py'' (Some 20000) (Inr ''x'')) \<notin>
       fst ` set [(([''small.py''], File ''small.py'' (Some 5) (Inr ''x = 1'')), 5)]
   \<and> ([''big.py''], File ''big.py'' (Some 20000) (Inr ''x'')) \<notin>
       fst ` set (fst (selected ''/repo'' 50
                    [(([''small.py''], File ''small.py'' (Some 5) (Inr ''x = 1'')), 5)]))"
  using per_file_cap [of "''/repo''" 10000
      "Dir ''repo'' [File ''big.py'' (Some 20000) (Inr ''x''),
                     File ''small.py'' (Some 5) (Inr ''x = 1'')]"
      "[(([''small.py''], File ''small.py'' (Some 5) (Inr ''x = 1'')), 5)]" 50]
  by (simp add: model_defs)

subsection \<open>Exclusion rules of the Surveyor and the Selector\<close>

lemma surveyor_skips_imp_skips_directory:
  "surveyor_skips parts \<Longrightarrow> skips_directory parts"
  by (simp add: surveyor_skips_def skips_directory_def SKIP_DIRECTORIES_def)

text \<open>
  C2, as amended. The Selector excludes what the Surveyor excludes (a path with a
  \<^verbatim>\<open>.git\<close> component) and, beyond that, every path with a component among the other
  nine skip directories and every file whose name is in the skip-by-name set; no
  candidate is a path that either of them excludes.
\<close>

theorem exclusion_rules:
  "selector_skips parts =
     (surveyor_skips parts
      \<or> list_ex (\<lambda>skip. skip \<in> set parts)
           [''node_modules'', ''__pycache__'', ''venv'', ''.venv'', ''dist'', ''build'',
            ''target'', ''bin'', ''obj'']
      \<or> path_name parts \<in> set [''package-lock.json'', ''yarn.lock'', ''poetry.lock'',
            ''Pipfile.lock'', ''.gitignore'', ''.dockerignore'', ''LICENSE'', ''CHANGELOG.md''])
   \<and> (surveyor_skips parts \<longrightarrow> selector_skips parts)
   \<and> (code_files target_dir max_file_size nd = Inr cf \<and> c \<in> set cf \<longrightarrow>
        \<not> surveyor_skips (path_parts target_dir @ fst (fst c))
        \<and> \<not> selector_skips (path_parts target_dir @ fst (fst c)))"
proof -
  have 1: "selector_skips parts =
     (surveyor_skips parts
      \<or> list_ex (\<lambda>skip. skip \<in> set parts)
           [''node_modules'', ''__pycache__'', ''venv'', ''.venv'', ''dist'', ''build'',
            ''target'', ''bin'', ''obj'']
      \<or> path_name parts \<in> set [''package-lock.json'', ''yarn.lock'', ''poetry.lock'',
            ''Pipfile.lock'', ''.gitignore'', ''.dockerignore'', ''LICENSE'', ''CHANGELOG.md''])"
    by (simp add: selector_skips_def surveyor_skips_def skips_directory_def skips_file_name_def
        SKIP_DIRECTORIES_def skip_files_def)
  have 2: "surveyor_skips parts \<longrightarrow> selector_skips parts"
    by (simp add: selector_skips_def surveyor_skips_imp_skips_directory)
  have 3: "\<not> surveyor_skips (path_parts target_dir @ fst (fst c))
        \<and> \<not> selector_skips (path_parts target_dir @ fst (fst c))"
    if "code_files target_dir max_file_size nd = Inr cf" and "c \<in> set cf"
    using collect_code_files_sound [OF that(1) [unfolded code_files_def] that(2)]
      surveyor_skips_imp_skips_directory [of "path_parts target_dir @ fst (fst c)"]
    by (auto simp: selector_skips_def)
  from 1 2 3 show ?thesis by blast
qed

theorem exclusion_rules_witness:
  "surveyor_skips [''/'', ''repo'', ''.git'', ''config'']
   \<and> selector_skips [''/'', ''repo'', ''.git'', ''config'']
   \<and> code_files ''/repo'' 10000
        (Dir ''repo'' [Dir ''.git'' [File ''config.json'' (Some 2) (Inr ''{}'')],
                       File ''main.py'' (Some 5) (Inr ''x = 1'')]) =
       Inr [(([''main.py''], File ''main.py'' (Some 5) (Inr ''x = 1'')), 5)]
   \<and> (([''main.py''], File ''main.py'' (Some 5) (Inr ''x = 1'')), 5) \<in>
       set [(([''main.py''], File ''main.py'' (Some 5) (Inr ''x = 1'')), 5)]
   \<and> \<not> surveyor_skips (path_parts ''/repo'' @ [''main.py''])
   \<and> \<not> selector_skips (path_parts ''/repo'' @ [''main.py''])"
  using exclusion_rules [of "[''/'', ''repo'', ''.git'', ''config'']" "''/repo''" 10000
      "Dir ''repo'' [Dir ''.git'' [File ''config.json'' (Some 2) (Inr ''{}'')],
                     File ''main.py'' (Some 5) (Inr ''x = 1'')]"
      "[(([''main.py''], File ''main.py'' (Some 5) (Inr ''x = 1'')), 5)]"
      "(([''main.py''], File ''main.py'' (Some 5) (Inr ''x = 1'')), 5)"]
  by (simp add: model_defs)

text \<open>
  C2 as stated fails: the Selector excludes \<^verbatim>\<open>node_modules/x.js\<close> and \<^verbatim>\<open>LICENSE\<close>,
  and the Surveyor lists both.
\<close>

theorem exclusion_rules_differ:
  "selector_skips [''/'', ''repo'', ''node_modules'', ''x.js'']
   \<and> \<not> surveyor_skips [''/'', ''repo'', ''node_modules'', ''x.js'']
   \<and> files (get_repository_structure
        [''/repo'' \<mapsto> Dir ''repo'' [Dir ''node_modules'' [File ''x.js'' (Some 5) (Inr ''var x'')],
                                   File ''LICENSE'' (Some 2) (Inr ''BS'')]] ''/repo'' 3) =
       [''LICENSE'', ''node_modules/x.js'']
   \<and> code_files ''/repo'' 10000
        (Dir ''repo'' [Dir ''node_modules'' [File ''x.js'' (Some 5) (Inr ''var x'')],
                       File ''LICENSE'' (Some 2) (Inr ''BS'')]) = Inr []"
  by (simp add: model_defs)

subsection \<open>The priority key\<close>






subsection \<open>A skip directory among the parts of the root\<close>

lemma skips_directory_append: "skips_directory rp \<Longrightarrow> skips_directory (rp @ rel)"
  by (auto simp: skips_directory_def list_ex_iff)

lemma collect_code_files_all_skipped:
  "skips_directory rp \<Longrightarrow> collect_code_files rp mfs its acc = Inr acc"
proof (induction its)
  case Nil
  then show ?case by simp
next
  case (Cons it its)
  obtain rel nd where "it = (rel, nd)" by (cases it)
  with Cons show ?case by (simp add: skips_directory_append)
qed

lemma startswith_append: "startswith s p \<Longrightarrow> startswith (s @ t) p"
  by (induction s p rule: startswith.induct) simp_all

lemma contains_append: "contains p s \<Longrightarrow> contains p (s @ t)"
proof (induction s)
  case Nil
  then show ?case by (cases t) simp_all
next
  case (Cons c s)
  then show ?case using startswith_append [of "c # s" p t] by auto
qed

lemma join_append:
  "join sep (xs @ ys) =
     (if xs = [] then join sep ys else if ys = [] then join sep xs
      else join sep xs @ sep @ join sep ys)"
proof (induction sep xs rule: join.induct)
  case (1 sep)
  then show ?case by simp
next
  case (2 sep l)
  then show ?case by (cases ys) simp_all
next
  case (3 sep l v va)
  then show ?case by simp
qed

lemma join_append_ex: "\<exists>x. join sep (xs @ ys) = join sep xs @ x"
  by (simp add: join_append)

lemma path_str_append: "rp \<noteq> [] \<Longrightarrow> \<exists>x. path_str (rp @ rel) = path_str rp @ x"
proof (cases rp)
  case Nil
  assume "rp \<noteq> []"
  with Nil show ?thesis by simp
next
  case (Cons p ps)
  from join_append_ex [of "''/''" ps rel] obtain x where
    x: "join ''/'' (ps @ rel) = join ''/'' ps @ x" by blast
  from join_append_ex [of "''/''" "p # ps" rel] obtain y where
    y: "join ''/'' (p # ps @ rel) = join ''/'' (p # ps) @ y" by auto
  show ?thesis
  proof (cases "is_root_part p")
    case True
    with x show ?thesis by (simp add: Cons)
  next
    case False
    with y show ?thesis by (simp add: Cons)
  qed
qed

lemma contains_root_path:
  assumes "contains p (lower (path_str rp))" and "\<not> contains p ''.''"
  shows "contains p (lower (path_str (rp @ rel)))"
proof (cases "rp = []")
  case True
  with assms show ?thesis by (simp add: lower_def lower_char_if)
next
  case False
  then obtain x where "path_str (rp @ rel) = path_str rp @ x"
    using path_str_append by blast
  with assms show ?thesis by (simp add: lower_def contains_append)
qed

lemma code_files_header_zero:
  "code_files_header 0 0 = ''\<newline>## Code Files (0 files included, ~0KB total)\<newline>''"
  by (simp add: code_files_header_def)

text \<open>
  C4. The skip-directory test reads the parts of the whole path, the root's included.
  So when a part of the root is in the skip set, every entry is passed over: there is
  no candidate, nothing is selected, and the result is the header followed by the line
  for zero files and no file section. Likewise the substring tests of \<^verbatim>\<open>file_priority\<close>
  read the lowercased whole path: under a root whose path contains \<^verbatim>\<open>src\<close> or \<^verbatim>\<open>app\<close>
  no candidate is below tier 3, and under one that contains \<^verbatim>\<open>test\<close> or \<^verbatim>\<open>spec\<close>
  none is in tier 7.
\<close>

theorem skip_component_in_root:
  "(skips_directory (path_parts target_dir) \<longrightarrow>
      code_files target_dir max_file_size nd = Inr []
      \<and> selected target_dir max_files [] = ([], 0)
      \<and> body_parts target_dir max_files max_file_size nd =
          [''\<newline>## Code Files (0 files included, ~0KB total)\<newline>'']
      \<and> (fs target_dir = Some nd \<and> \<not> isl (is_file nd) \<longrightarrow>
           extract_repository_content fs target_dir max_files max_file_size =
             Inr (concat (header_parts fs target_dir) @
                  ''\<newline>## Code Files (0 files included, ~0KB total)\<newline>'')))
   \<and> (contains ''src'' (lower (path_str rp)) \<or> contains ''app'' (lower (path_str rp)) \<longrightarrow>
        fst (candidate_key rp c) \<le> 3)
   \<and> (contains ''test'' (lower (path_str rp)) \<or> contains ''spec'' (lower (path_str rp)) \<longrightarrow>
        fst (candidate_key rp c) \<le> 6)"
proof -
  have 1: "code_files target_dir max_file_size nd = Inr []"
    if "skips_directory (path_parts target_dir)"
    using that by (simp add: code_files_def collect_code_files_all_skipped)
  have 2: "selected target_dir max_files [] = ([], 0)"
    by (simp add: selected_def)
  have 3: "body_parts target_dir max_files max_file_size nd =
          [''\<newline>## Code Files (0 files included, ~0KB total)\<newline>'']"
    if "skips_directory (path_parts target_dir)"
    using 1 [OF that] 2 code_files_header_zero by (simp add: body_parts_def)
  have 4: "extract_repository_content fs target_dir max_files max_file_size =
             Inr (concat (header_parts fs target_dir) @
                  ''\<newline>## Code Files (0 files included, ~0KB total)\<newline>'')"
    if "skips_directory (path_parts target_dir)" and "fs target_dir = Some nd"
      and "\<not> isl (is_file nd)"
    using 3 [OF that(1)] that(2,3) by (cases nd) (simp_all add: extract_repository_content_def)
  have 5: "fst (candidate_key rp c) \<le> 3"
    if "contains ''src'' (lower (path_str rp)) \<or> contains ''app'' (lower (path_str rp))"
  proof -
    from that have "contains ''src'' (lower (path_str (rp @ fst (fst c))))
        \<or> contains ''app'' (lower (path_str (rp @ fst (fst c))))"
      using contains_root_path [of "''src''" rp "fst (fst c)"]
        contains_root_path [of "''app''" rp "fst (fst c)"] by auto
    then show ?thesis by (auto simp: candidate_key_def file_priority_def Let_def)
  qed
  have 6: "fst (candidate_key rp c) \<le> 6"
    if "contains ''test'' (lower (path_str rp)) \<or> contains ''spec'' (lower (path_str rp))"
  proof -
    from that have "contains ''test'' (lower (path_str (rp @ fst (fst c))))
        \<or> contains ''spec'' (lower (path_str (rp @ fst (fst c))))"
      using contains_root_path [of "''test''" rp "fst (fst c)"]
        contains_root_path [of "''spec''" rp "fst (fst c)"] by auto
    then show ?thesis by (auto simp: candidate_key_def file_priority_def Let_def)
  qed
  from 1 2 3 4 5 6 show ?thesis by blast
qed

theorem skip_component_in_root_witness:
  "skips_directory (path_parts ''/tmp/build/repo'')
   \<and> code_files ''/tmp/build/repo'' 10000
        (Dir ''repo'' [File ''main.py'' (Some 5) (Inr ''x = 1'')]) = Inr []
   \<and> extract_repository_content
        [''/tmp/build/repo'' \<mapsto> Dir ''repo'' [File ''main.py'' (Some 5) (Inr ''x = 1'')]]
        ''/tmp/build/repo'' 50 10000 =
       Inr (''# Repository Structure and Content\<newline>'' @
            ''\<newline>## Directory Structure\<newline>'' @
            ''Root: /tmp/build/repo\<newline>'' @
            ''\<newline>## Code Files (0 files included, ~0KB total)\<newline>'')
   \<and> contains ''app'' (lower (path_str [''/'', ''home'', ''app'', ''repo'']))
   \<and> fst (candidate_key [''/'', ''home'', ''app'', ''repo'']
             (([''util.py''], File ''util.py'' (Some 10) (Inr ''x'')), 10)) = 3
   \<and> contains ''test'' (lower (path_str [''/'', ''home'', ''Testing'', ''repo'']))
   \<and> fst (candidate_key [''/'', ''home'', ''Testing'', ''repo'']
             (([''util.py''], File ''util.py'' (Some 10) (Inr ''x'')), 10)) = 6"
  using skip_component_in_root [of "''/tmp/build/repo''" 10000
      "Dir ''repo'' [File ''main.py'' (Some 5) (Inr ''x = 1'')]" 50
      "[''/tmp/build/repo'' \<mapsto> Dir ''repo'' [File ''main.py'' (Some 5) (Inr ''x = 1'')]]"
      "[''/'', ''home'', ''app'', ''repo'']"
      "(([''util.py''], File ''util.py'' (Some 10) (Inr ''x'')), 10)"]
    skip_component_in_root [of "''/tmp/build/repo''" 10000
      "Dir ''repo'' [File ''main.py'' (Some 5) (Inr ''x = 1'')]" 50
      "[''/tmp/build/repo'' \<mapsto> Dir ''repo'' [File ''main.py'' (Some 5) (Inr ''x = 1'')]]"
      "[''/'', ''home'', ''Testing'', ''repo'']"
      "(([''util.py''], File ''util.py'' (Some 10) (Inr ''x'')), 10)"]
  by (simp add: model_defs)

subsection \<open>The large-file scenario of the structural extractor\<close>

lemma split_chr_nonempty: "split_chr d s \<noteq> []"
  by (induction s) (auto split: list.splits)

lemma split_chr_line: "d \<notin> set l \<Longrightarrow> split_chr d l = [l]"
  by (induction l) auto

lemma split_chr_append_line: "d \<notin> set l \<Longrightarrow> split_chr d (l @ d # s) = l # split_chr d s"
  by (induction l) auto

lemma split_chr_join:
  "ls \<noteq> [] \<Longrightarrow> \<forall>l\<in>set ls. d \<notin> set l \<Longrightarrow> split_chr d (join [d] ls) = ls"
proof (induction "[d]" ls rule: join.induct)
  case 1
  then show ?case by simp
next
  case (2 l)
  then show ?case by (simp add: split_chr_line)
next
  case (3 l v va)
  then show ?case by (simp add: split_chr_append_line)
qed

lemma length_split_chr:
  "sum_list (map length (split_chr d s)) + length (split_chr d s) = Suc (length s)"
proof (induction s)
  case Nil
  then show ?case by simp
next
  case (Cons c s)
  then show ?case by (cases "split_chr d s") (auto simp: split_chr_nonempty)
qed

lemma length_join:
  "ls \<noteq> [] \<Longrightarrow> Suc (length (join [d] ls)) = sum_list (map length ls) + length ls"
  by (induction "[d]" ls rule: join.induct) simp_all

lemma sum_length_filter_le:
  "sum_list (map length (filter P ls)) \<le> sum_list (map length ls)"
  by (induction ls) auto

lemma length_filter_mono:
  "(\<And>x. Q x \<Longrightarrow> P x) \<Longrightarrow> length (filter Q xs) \<le> length (filter P xs)"
  by (induction xs) auto

lemma filter_eq_of_length:
  assumes "\<And>x. Q x \<Longrightarrow> P x" and "length (filter Q xs) = length (filter P xs)"
  shows "filter Q xs = filter P xs"
  using assms(2)
proof (induction xs)
  case Nil
  then show ?case by simp
next
  case (Cons x xs)
  have le: "length (filter Q xs) \<le> length (filter P xs)"
    using assms(1) by (rule length_filter_mono)
  show ?case
  proof (cases "Q x")
    case True
    with assms(1) have "P x" by blast
    with True Cons show ?thesis by simp
  next
    case False
    with Cons le show ?thesis by (cases "P x") auto
  qed
qed

lemma startswith_hd: "startswith s (p # ps) \<Longrightarrow> s \<noteq> [] \<and> hd s = p"
  by (cases s) auto

lemma length_filter_disj3:
  assumes "\<And>x. \<not> (A x \<and> B x)" and "\<And>x. \<not> (A x \<and> C x)" and "\<And>x. \<not> (B x \<and> C x)"
  shows "length (filter (\<lambda>x. A x \<or> B x \<or> C x) xs) =
         length (filter A xs) + length (filter B xs) + length (filter C xs)"
  using assms by (induction xs) auto

lemmas line_defs = keeps_def py_prefixes_def strip_def is_space_def

text \<open>
  C6, as amended. Take a 5000-character \<^verbatim>\<open>.py\<close> content of 406 lines: 3 whose stripped
  form starts with \<^verbatim>\<open>import \<close>, 1 with \<^verbatim>\<open>class \<close>, 2 with \<^verbatim>\<open>def \<close>, and 400 that match
  no keyword prefix. The lines kept by the filter are exactly those 6. When the 6 lines
  joined by newlines are at least 100 characters long, the result is those lines joined
  by newlines followed by the trailing marker; when they are shorter, the result is the
  first 3000 characters of the content followed by the truncation marker. In both cases
  the result is strictly shorter than the content.
\<close>

theorem large_file_extraction:
  "length content = 5000 \<Longrightarrow>
   length (split_chr nl content) = 406 \<Longrightarrow>
   length (filter (\<lambda>l. startswith (strip l) ''import '') (split_chr nl content)) = 3 \<Longrightarrow>
   length (filter (\<lambda>l. startswith (strip l) ''class '') (split_chr nl content)) = 1 \<Longrightarrow>
   length (filter (\<lambda>l. startswith (strip l) ''def '') (split_chr nl content)) = 2 \<Longrightarrow>
   length (filter (\<lambda>l. \<not> keeps py_prefixes l) (split_chr nl content)) = 400 \<Longrightarrow>
     filter (keeps py_prefixes) (split_chr nl content) =
       filter (\<lambda>l. startswith (strip l) ''import '' \<or> startswith (strip l) ''class ''
                    \<or> startswith (strip l) ''def '') (split_chr nl content)
     \<and> length (filter (keeps py_prefixes) (split_chr nl content)) = 6
     \<and> extract_code_structure content ''.py'' =
         (if 100 \<le> length (join [nl] (filter (keeps py_prefixes) (split_chr nl content)))
          then join [nl] (filter (keeps py_prefixes) (split_chr nl content)) @
               ''\<newline>... (full implementation details omitted for brevity)''
          else take 3000 content @ ''\<newline>... (truncated for brevity)'')
     \<and> length (extract_code_structure content ''.py'') < length content"
proof -
  let ?ls = "split_chr nl content"
  let ?imp = "\<lambda>l. startswith (strip l) ''import ''"
  let ?cls = "\<lambda>l. startswith (strip l) ''class ''"
  let ?def = "\<lambda>l. startswith (strip l) ''def ''"
  let ?Q = "\<lambda>l. ?imp l \<or> ?cls l \<or> ?def l"
  let ?kept = "filter (keeps py_prefixes) ?ls"
  assume len: "length content = 5000" and n: "length ?ls = 406"
    and i: "length (filter ?imp ?ls) = 3" and c: "length (filter ?cls ?ls) = 1"
    and d: "length (filter ?def ?ls) = 2"
    and f: "length (filter (\<lambda>l. \<not> keeps py_prefixes l) ?ls) = 400"
  have six: "length ?kept = 6"
    using sum_length_filter_compl [of "keeps py_prefixes" ?ls] n f by simp
  have "length (filter ?Q ?ls) =
      length (filter ?imp ?ls) + length (filter ?cls ?ls) + length (filter ?def ?ls)"
    by (rule length_filter_disj3) (auto dest!: startswith_hd)
  with i c d six have "length (filter ?Q ?ls) = length ?kept" by simp
  moreover have "keeps py_prefixes l" if "?Q l" for l
    using that by (auto simp: keeps_def py_prefixes_def)
  ultimately have same: "filter ?Q ?ls = ?kept"
    by (rule filter_eq_of_length [rotated])
  have ne: "?kept \<noteq> []" using six by auto
  have res: "extract_code_structure content ''.py'' =
         (if 100 \<le> length (join [nl] ?kept)
          then join [nl] ?kept @ ''\<newline>... (full implementation details omitted for brevity)''
          else take 3000 content @ ''\<newline>... (truncated for brevity)'')"
    using len ne
    by (simp add: extract_code_structure_def finish_extraction_def Let_def
        CODE_STRUCTURE_EXTRACTION_THRESHOLD_def MIN_EXTRACTED_CONTENT_def
        truncated_marker_def omitted_marker_def not_less)
  have "sum_list (map length ?kept) \<le> sum_list (map length ?ls)"
    by (rule sum_length_filter_le)
  moreover have "sum_list (map length ?ls) + 406 = 5001"
    using length_split_chr [of nl content] len n by simp
  moreover have "Suc (length (join [nl] ?kept)) = sum_list (map length ?kept) + 6"
    using length_join [OF ne, of nl] six by simp
  ultimately have "length (join [nl] ?kept) \<le> 4600" by simp
  then have short: "length (extract_code_structure content ''.py'') < length content"
    using len by (simp add: res)
  from same six res short show ?thesis by simp
qed

theorem large_file_extraction_witness:
  "length (join [nl] ([''import os, sys, json'', ''import logging, time'', ''import typing as tp1'',
        ''class RepoWalker(A):'', ''def walk(self, top):'', ''def read(self, arg):''] @
       replicate 325 ''xxxxxxxxxxx'' @ replicate 75 ''xxxxxxxxxxxx'')) = 5000
   \<and> length (split_chr nl (join [nl] ([''import os, sys, json'', ''import logging, time'', ''import typing as tp1'',
        ''class RepoWalker(A):'', ''def walk(self, top):'', ''def read(self, arg):''] @
       replicate 325 ''xxxxxxxxxxx'' @ replicate 75 ''xxxxxxxxxxxx''))) = 406
   \<and> length (filter (\<lambda>l. startswith (strip l) ''import '') (split_chr nl (join [nl] ([''import os, sys, json'', ''import logging, time'', ''import typing as tp1'',
        ''class RepoWalker(A):'', ''def walk(self, top):'', ''def read(self, arg):''] @
       replicate 325 ''xxxxxxxxxxx'' @ replicate 75 ''xxxxxxxxxxxx'')))) = 3
   \<and> length (filter (\<lambda>l. startswith (strip l) ''class '') (split_chr nl (join [nl] ([''import os, sys, json'', ''import logging, time'', ''import typing as tp1'',
        ''class RepoWalker(A):'', ''def walk(self, top):'', ''def read(self, arg):''] @
       replicate 325 ''xxxxxxxxxxx'' @ replicate 75 ''xxxxxxxxxxxx'')))) = 1
   \<and> length (filter (\<lambda>l. startswith (strip l) ''def '') (split_chr nl (join [nl] ([''import os, sys, json'', ''import logging, time'', ''import typing as tp1'',
        ''class RepoWalker(A):'', ''def walk(self, top):'', ''def read(self, arg):''] @
       replicate 325 ''xxxxxxxxxxx'' @ replicate 75 ''xxxxxxxxxxxx'')))) = 2
   \<and> length (filter (\<lambda>l. \<not> keeps py_prefixes l) (split_chr nl (join [nl] ([''import os, sys, json'', ''import logging, time'', ''import typing as tp1'',
        ''class RepoWalker(A):'', ''def walk(self, top):'', ''def read(self, arg):''] @
       replicate 325 ''xxxxxxxxxxx'' @ replicate 75 ''xxxxxxxxxxxx'')))) = 400
   \<and> extract_code_structure (join [nl] ([''import os, sys, json'', ''import logging, time'', ''import typing as tp1'',
        ''class RepoWalker(A):'', ''def walk(self, top):'', ''def read(self, arg):''] @
       replicate 325 ''xxxxxxxxxxx'' @ replicate 75 ''xxxxxxxxxxxx'')) ''.py'' =
       join [nl] [''import os, sys, json'', ''import logging, time'', ''import typing as tp1'',
        ''class RepoWalker(A):'', ''def walk(self, top):'', ''def read(self, arg):''] @ ''\<newline>... (full implementation details omitted for brevity)''
   \<and> length (extract_code_structure (join [nl] ([''import os, sys, json'', ''import logging, time'', ''import typing as tp1'',
        ''class RepoWalker(A):'', ''def walk(self, top):'', ''def read(self, arg):''] @
       replicate 325 ''xxxxxxxxxxx'' @ replicate 75 ''xxxxxxxxxxxx'')) ''.py'') < length (join [nl] ([''import os, sys, json'', ''import logging, time'', ''import typing as tp1'',
        ''class RepoWalker(A):'', ''def walk(self, top):'', ''def read(self, arg):''] @
       replicate 325 ''xxxxxxxxxxx'' @ replicate 75 ''xxxxxxxxxxxx''))"
proof -
  define L where "L = ([''import os, sys, json'', ''import logging, time'', ''import typing as tp1'',
        ''class RepoWalker(A):'', ''def walk(self, top):'', ''def read(self, arg):''] @
       replicate 325 ''xxxxxxxxxxx'' @ replicate 75 ''xxxxxxxxxxxx'')"
  define C where "C = join [nl] L"
  have nonl: "\<forall>l\<in>set L. nl \<notin> set l" by (simp add: L_def)
  have sp: "split_chr nl C = L"
    unfolding C_def by (rule split_chr_join [OF _ nonl]) (simp add: L_def)
  have "Suc (length C) = sum_list (map length L) + length L"
    unfolding C_def by (rule length_join) (simp add: L_def)
  then have len: "length C = 5000" by (simp add: L_def sum_list_replicate)
  have n: "length (split_chr nl C) = 406" by (simp add: sp) (simp add: L_def)
  have i: "length (filter (\<lambda>l. startswith (strip l) ''import '') (split_chr nl C)) = 3"
    by (simp add: sp) (simp add: L_def line_defs)
  have c: "length (filter (\<lambda>l. startswith (strip l) ''class '') (split_chr nl C)) = 1"
    by (simp add: sp) (simp add: L_def line_defs)
  have d: "length (filter (\<lambda>l. startswith (strip l) ''def '') (split_chr nl C)) = 2"
    by (simp add: sp) (simp add: L_def line_defs)
  have f: "length (filter (\<lambda>l. \<not> keeps py_prefixes l) (split_chr nl C)) = 400"
    by (simp add: sp) (simp add: L_def line_defs)
  have kept: "filter (keeps py_prefixes) (split_chr nl C) = [''import os, sys, json'', ''import logging, time'', ''import typing as tp1'',
        ''class RepoWalker(A):'', ''def walk(self, top):'', ''def read(self, arg):'']"
    by (simp add: sp) (simp add: L_def line_defs)
  have long: "100 \<le> length (join [nl] [''import os, sys, json'', ''import logging, time'', ''import typing as tp1'',
        ''class RepoWalker(A):'', ''def walk(self, top):'', ''def read(self, arg):''])"
    by simp
  note r = large_file_extraction [OF len n i c d f]
  have e: "extract_code_structure C ''.py'' =
       join [nl] [''import os, sys, json'', ''import logging, time'', ''import typing as tp1'',
        ''class RepoWalker(A):'', ''def walk(self, top):'', ''def read(self, arg):''] @ ''\<newline>... (full implementation details omitted for brevity)''"
    by (simp only: r [THEN conjunct2, THEN conjunct2, THEN conjunct1] kept long if_True)
  have s: "length (extract_code_structure C ''.py'') < length C"
    by (rule r [THEN conjunct2, THEN conjunct2, THEN conjunct2])
  from len n i c d f e s show ?thesis
    unfolding C_def L_def by (intro conjI)
qed

text \<open>
  C6 as stated fails when the 6 structural lines are short: here they are 8 characters
  each (53 characters once joined), and the result is the first 3000 characters of the
  content and the truncation marker, not the 6 lines and the trailing marker.
\<close>

theorem short_structural_lines_fall_back:
  "length (join [nl] ([''import a'', ''import b'', ''import c'', ''class C:'', ''def f():'', ''def g():''] @
       replicate 253 ''xxxxxxxxxxx'' @ replicate 147 ''xxxxxxxxxxxx'')) = 5000
   \<and> split_chr nl (join [nl] ([''import a'', ''import b'', ''import c'', ''class C:'', ''def f():'', ''def g():''] @
       replicate 253 ''xxxxxxxxxxx'' @ replicate 147 ''xxxxxxxxxxxx'')) = ([''import a'', ''import b'', ''import c'', ''class C:'', ''def f():'', ''def g():''] @
       replicate 253 ''xxxxxxxxxxx'' @ replicate 147 ''xxxxxxxxxxxx'')
   \<and> filter (keeps py_prefixes) ([''import a'', ''import b'', ''import c'', ''class C:'', ''def f():'', ''def g():''] @
       replicate 253 ''xxxxxxxxxxx'' @ replicate 147 ''xxxxxxxxxxxx'') = [''import a'', ''import b'', ''import c'', ''class C:'', ''def f():'', ''def g():'']
   \<and> length (filter (\<lambda>l. \<not> keeps py_prefixes l) ([''import a'', ''import b'', ''import c'', ''class C:'', ''def f():'', ''def g():''] @
       replicate 253 ''xxxxxxxxxxx'' @ replicate 147 ''xxxxxxxxxxxx'')) = 400
   \<and> extract_code_structure (join [nl] ([''import a'', ''import b'', ''import c'', ''class C:'', ''def f():'', ''def g():''] @
       replicate 253 ''xxxxxxxxxxx'' @ replicate 147 ''xxxxxxxxxxxx'')) ''.py'' =
       take 3000 (join [nl] ([''import a'', ''import b'', ''import c'', ''class C:'', ''def f():'', ''def g():''] @
       replicate 253 ''xxxxxxxxxxx'' @ replicate 147 ''xxxxxxxxxxxx'')) @ ''\<newline>... (truncated for brevity)''
   \<and> extract_code_structure (join [nl] ([''import a'', ''import b'', ''import c'', ''class C:'', ''def f():'', ''def g():''] @
       replicate 253 ''xxxxxxxxxxx'' @ replicate 147 ''xxxxxxxxxxxx'')) ''.py'' \<noteq>
       join [nl] [''import a'', ''import b'', ''import c'', ''class C:'', ''def f():'', ''def g():''] @ ''\<newline>... (full implementation details omitted for brevity)''"
proof -
  define L where "L = ([''import a'', ''import b'', ''import c'', ''class C:'', ''def f():'', ''def g():''] @
       replicate 253 ''xxxxxxxxxxx'' @ replicate 147 ''xxxxxxxxxxxx'')"
  define C where "C = join [nl] L"
  have nonl: "\<forall>l\<in>set L. nl \<notin> set l" by (simp add: L_def)
  have sp: "split_chr nl C = L"
    unfolding C_def by (rule split_chr_join [OF _ nonl]) (simp add: L_def)
  have "Suc (length C) = sum_list (map length L) + length L"
    unfolding C_def by (rule length_join) (simp add: L_def)
  then have len: "length C = 5000" by (simp add: L_def sum_list_replicate)
  have kept: "filter (keeps py_prefixes) L = [''import a'', ''import b'', ''import c'', ''class C:'', ''def f():'', ''def g():'']"
    by (simp add: L_def line_defs)
  have fill: "length (filter (\<lambda>l. \<not> keeps py_prefixes l) L) = 400"
    by (simp add: L_def line_defs)
  have res: "extract_code_structure C ''.py'' =
       take 3000 C @ ''\<newline>... (truncated for brevity)''"
    unfolding extract_code_structure_def Let_def sp kept
    by (simp add: len finish_extraction_def CODE_STRUCTURE_EXTRACTION_THRESHOLD_def
        MIN_EXTRACTED_CONTENT_def truncated_marker_def)
  have "length (take 3000 C @ ''\<newline>... (truncated for brevity)'') = 3028"
    by (simp add: len)
  moreover have "length (join [nl] [''import a'', ''import b'', ''import c'', ''class C:'', ''def f():'', ''def g():''] @
      ''\<newline>... (full implementation details omitted for brevity)'') = 107"
    by simp
  ultimately have ne: "take 3000 C @ ''\<newline>... (truncated for brevity)'' \<noteq>
      join [nl] [''import a'', ''import b'', ''import c'', ''class C:'', ''def f():'', ''def g():''] @ ''\<newline>... (full implementation details omitted for brevity)''"
    by auto
  have ne': "extract_code_structure C ''.py'' \<noteq>
      join [nl] [''import a'', ''import b'', ''import c'', ''class C:'', ''def f():'', ''def g():''] @ ''\<newline>... (full implementation details omitted for brevity)''"
    using ne by (simp only: res not_False_eq_True)
  from len sp kept fill res ne' show ?thesis
    unfolding C_def L_def by (intro conjI)
qed

end
